theory Spec2Isabelle
  imports Complex_Main "HOL-Library.Word"
begin

section \<open>Python values, exceptions and the module constants of litra.py\<close>

text \<open>
  The attributes of a \<open>Litra\<close> object hold arbitrary Python values, and the property
  setters are what restricts them. The values the setters can tell apart are modelled
  by \<open>pyval\<close>. \<open>PFloat q\<close> is a finite non-integer numeric (a float, or a Fraction) of
  exact value \<open>q\<close>: Python compares such a number with an \<open>int\<close> exactly, by value.
  \<open>PNonFinite\<close> stands for \<open>nan\<close>, \<open>inf\<close> and \<open>-inf\<close>. A \<open>bool\<close> is an \<open>int\<close> in
  Python (\<open>isinstance(True, int)\<close> holds, \<open>True == 1\<close>).
\<close>

datatype pyval = PNone | PBool bool | PInt int | PFloat rat | PNonFinite | PStr string

text \<open>The exceptions raised on the paths modelled here, by their Python class.\<close>

datatype error = KeyError | IndexError | RuntimeError | ValueError | TypeError | OverflowError

type_synonym byte = "8 word"

definition LITRA_COMMAND_BUFFER_PREFIX :: "int list" where
  "LITRA_COMMAND_BUFFER_PREFIX = [0x11, 0xff, 0x04]"

definition LITRA_COMMAND_BUFFER_LENGTH :: nat where
  "LITRA_COMMAND_BUFFER_LENGTH = 20"

definition LITRA_COMMANDS :: "string \<rightharpoonup> int" where
  "LITRA_COMMANDS = map_of
     [(''power_get'', 0x1b), (''power'', 0x1c), (''brightness'', 0x4c), (''temperature'', 0x9c)]"

definition INPUT_CODES :: "int \<rightharpoonup> string" where
  "INPUT_CODES = map_of [(0, ''power''), (16, ''brightness''), (32, ''temperature'')]"

section \<open>Inbound field validators\<close>

text \<open>
  \<open>int.from_bytes(xs)\<close> on a list of ints, big-endian (the default byte order
  since Python 3.11): every element must be in \<open>range(256)\<close>, otherwise
  \<open>ValueError\<close>.
\<close>

definition from_bytes :: "int list \<Rightarrow> error + int" where
  "from_bytes xs =
     (if list_all (\<lambda>b. 0 \<le> b \<and> b < 256) xs
      then Inr (foldl (\<lambda>acc b. acc * 256 + b) 0 xs)
      else Inl ValueError)"

definition validate_power :: "int list \<Rightarrow> error + pyval" where
  "validate_power input_data =
     (case input_data of
        [] \<Rightarrow> Inl IndexError
      | input_value # _ \<Rightarrow>
          if input_value \<noteq> 0 \<and> input_value \<noteq> 1 then Inl RuntimeError
          else Inr (PBool (input_value \<noteq> 0)))"

definition validate_brightness :: "int list \<Rightarrow> error + pyval" where
  "validate_brightness input_data =
     (let input_value = take 2 input_data in
      case from_bytes input_value of
        Inl e \<Rightarrow> Inl e
      | Inr brightness \<Rightarrow> Inr (PInt brightness))"

definition validate_temperature :: "int list \<Rightarrow> error + pyval" where
  "validate_temperature input_data =
     (let input_value = take 2 input_data in
      case from_bytes input_value of
        Inl e \<Rightarrow> Inl e
      | Inr color_temperature \<Rightarrow> Inr (PInt color_temperature))"

definition INPUT_VALIDATION :: "int \<rightharpoonup> (int list \<Rightarrow> error + pyval)" where
  "INPUT_VALIDATION =
     map_of [(0, validate_power), (16, validate_brightness), (32, validate_temperature)]"

section \<open>The command encoder\<close>

text \<open>\<open>int.bit_length()\<close>: the number of bits of the absolute value, 0 for 0.\<close>

function bit_length_abs :: "int \<Rightarrow> nat" where
  "bit_length_abs n = (if n \<le> 0 then 0 else Suc (bit_length_abs (n div 2)))"
  by pat_completeness auto
termination
  by (relation "measure nat") auto

declare bit_length_abs.simps [simp del]

definition bit_length :: "int \<Rightarrow> nat" where
  "bit_length v = bit_length_abs \<bar>v\<bar>"

text \<open>
  \<open>math.ceil(value.bit_length() / 8)\<close>. The quotient is a float, but a division by 8 is
  exact on every bit length an integer in memory can have, so the ceiling is the
  integer one.
\<close>

definition value_len :: "int \<Rightarrow> nat" where
  "value_len v = (bit_length v + 7) div 8"

text \<open>The \<open>n\<close> low-order base-256 digits of \<open>v\<close>, most significant first.\<close>

fun be_bytes :: "nat \<Rightarrow> int \<Rightarrow> int list" where
  "be_bytes 0 v = []"
| "be_bytes (Suc n) v = be_bytes n (v div 256) @ [v mod 256]"

text \<open>
  \<open>v.to_bytes(length=n)\<close>, unsigned and big-endian (the defaults): \<open>OverflowError\<close> for
  a negative \<open>v\<close> and for a \<open>v\<close> that does not fit in \<open>n\<close> bytes.
\<close>

definition to_bytes :: "int \<Rightarrow> nat \<Rightarrow> error + int list" where
  "to_bytes v n =
     (if v < 0 then Inl OverflowError
      else if 256 ^ n \<le> v then Inl OverflowError
      else Inr (be_bytes n v))"

text \<open>
  \<open>litra_command\<close>. An unknown command name is a \<open>KeyError\<close> of the dictionary lookup.
  \<open>[0x00] * k\<close> is the empty list for a negative \<open>k\<close>, which is what the truncating
  subtraction on \<open>nat\<close> gives to \<open>replicate\<close>.
\<close>

definition litra_command :: "string \<Rightarrow> int \<Rightarrow> error + int list" where
  "litra_command command v =
     (case LITRA_COMMANDS command of
        None \<Rightarrow> Inl KeyError
      | Some command_code \<Rightarrow>
          (case to_bytes v (value_len v) of
             Inl e \<Rightarrow> Inl e
           | Inr value_bytes \<Rightarrow>
               (let output = LITRA_COMMAND_BUFFER_PREFIX @ [command_code] @ value_bytes;
                    buffered_output =
                      output @ replicate (LITRA_COMMAND_BUFFER_LENGTH - length output) 0
                in Inr buffered_output)))"

section \<open>The device state and its property setters\<close>

text \<open>
  The three private attributes of a \<open>Litra\<close> object. A setter returns the object after
  the call, and the exception it raised, if any: the object outlives the exception.
\<close>

record litra =
  Litra_power :: pyval
  Litra_temperature :: pyval
  Litra_brightness :: pyval

text \<open>The end of \<open>__init__\<close>: all three attributes are \<open>None\<close>.\<close>

definition init_litra :: litra where
  "init_litra = \<lparr>Litra_power = PNone, Litra_temperature = PNone, Litra_brightness = PNone\<rparr>"

text \<open>
  The chained comparison \<open>lo <= value <= hi\<close> with integer bounds. It raises
  \<open>TypeError\<close> on \<open>None\<close> and on a string; on \<open>nan\<close> and on an infinity one of the two
  comparisons is false.
\<close>

fun chained_le :: "int \<Rightarrow> pyval \<Rightarrow> int \<Rightarrow> error + bool" where
  "chained_le lo (PInt i) hi = Inr (lo \<le> i \<and> i \<le> hi)"
| "chained_le lo (PBool b) hi = Inr (lo \<le> (if b then 1 else 0) \<and> (if b then 1 else 0) \<le> hi)"
| "chained_le lo (PFloat q) hi = Inr (of_int lo \<le> q \<and> q \<le> of_int hi)"
| "chained_le lo PNonFinite hi = Inr False"
| "chained_le lo PNone hi = Inl TypeError"
| "chained_le lo (PStr s) hi = Inl TypeError"

fun isinstance_bool :: "pyval \<Rightarrow> bool" where
  "isinstance_bool (PBool b) = True"
| "isinstance_bool _ = False"

fun isinstance_int :: "pyval \<Rightarrow> bool" where
  "isinstance_int (PInt i) = True"
| "isinstance_int (PBool b) = True"
| "isinstance_int _ = False"

definition set_power :: "litra \<Rightarrow> pyval \<Rightarrow> litra \<times> error option" where
  "set_power self val =
     (if \<not> isinstance_bool val then (self, Some ValueError)
      else (self\<lparr>Litra_power := val\<rparr>, None))"

definition set_brightness :: "litra \<Rightarrow> pyval \<Rightarrow> litra \<times> error option" where
  "set_brightness self val =
     (if \<not> isinstance_int val then (self, None)
      else (case chained_le 20 val 250 of
              Inl e \<Rightarrow> (self, Some e)
            | Inr ok \<Rightarrow>
                if \<not> ok then (self, None)
                else (self\<lparr>Litra_brightness := val\<rparr>, None)))"

definition set_temperature :: "litra \<Rightarrow> pyval \<Rightarrow> litra \<times> error option" where
  "set_temperature self val =
     (case chained_le 2700 val 6500 of
        Inl e \<Rightarrow> (self, Some e)
      | Inr ok \<Rightarrow>
          if \<not> ok then (self, Some ValueError)
          else (self\<lparr>Litra_temperature := val\<rparr>, None))"

text \<open>
  \<open>setattr(self, attr_name, value)\<close>: the three properties go through their setters;
  any other name would create a fresh attribute and leave these three alone.
\<close>

definition setattr :: "litra \<Rightarrow> string \<Rightarrow> pyval \<Rightarrow> litra \<times> error option" where
  "setattr self attr_name val =
     (if attr_name = ''power'' then set_power self val
      else if attr_name = ''brightness'' then set_brightness self val
      else if attr_name = ''temperature'' then set_temperature self val
      else (self, None))"

section \<open>Decoding an inbound report\<close>

text \<open>\<open>array.tolist()\<close> of an array of unsigned bytes.\<close>

definition tolist :: "byte list \<Rightarrow> int list" where
  "tolist result = map uint result"

text \<open>
  \<open>process_result\<close>. The guard compares the two-element slice \<open>result_list[0:2]\<close> with
  the three-element prefix and negates the inequality; its branch prints and returns.
  \<open>pop(0)\<close> on an empty list is an \<open>IndexError\<close>, a missing dictionary key a \<open>KeyError\<close>.
  The only assignment is the \<open>setattr\<close> at the end, so every exception leaves the
  object as it was. The \<open>print\<close> calls are not modelled.
\<close>

definition process_result :: "litra \<Rightarrow> byte list \<Rightarrow> litra \<times> error option" where
  "process_result self result =
     (let result_list = tolist result in
      if \<not> (take 2 result_list \<noteq> [17, 255, 4]) then (self, None)
      else
        (case drop 3 result_list of
           [] \<Rightarrow> (self, Some IndexError)
         | input_code # input_data \<Rightarrow>
             (case INPUT_CODES input_code of
                None \<Rightarrow> (self, Some KeyError)
              | Some attr_name \<Rightarrow>
                  (case INPUT_VALIDATION input_code of
                     None \<Rightarrow> (self, Some KeyError)
                   | Some validate \<Rightarrow>
                       (case validate input_data of
                          Inl e \<Rightarrow> (self, Some e)
                        | Inr val \<Rightarrow> setattr self attr_name val)))))"

section \<open>The inbound polling loop\<close>



section \<open>Sequences of calls on one object\<close>

text \<open>
  A caller may assign to the three properties and hand reports to \<open>process_result\<close>, in
  any order, and may catch what they raise: \<open>run_calls\<close> is the object after such a
  sequence.
\<close>

datatype call =
    SetPower pyval
  | SetBrightness pyval
  | SetTemperature pyval
  | ProcessResult "byte list"

fun do_call :: "litra \<Rightarrow> call \<Rightarrow> litra \<times> error option" where
  "do_call self (SetPower val) = set_power self val"
| "do_call self (SetBrightness val) = set_brightness self val"
| "do_call self (SetTemperature val) = set_temperature self val"
| "do_call self (ProcessResult result) = process_result self result"

definition run_calls :: "litra \<Rightarrow> call list \<Rightarrow> litra" where
  "run_calls self calls = foldl (\<lambda>s c. fst (do_call s c)) self calls"

text \<open>The value ranges of the state model, as predicates on the stored values.\<close>

fun power_ok :: "pyval \<Rightarrow> bool" where
  "power_ok PNone = True"
| "power_ok (PBool b) = True"
| "power_ok _ = False"

fun brightness_ok :: "pyval \<Rightarrow> bool" where
  "brightness_ok PNone = True"
| "brightness_ok (PInt i) = (20 \<le> i \<and> i \<le> 250)"
| "brightness_ok _ = False"

fun temperature_ok :: "pyval \<Rightarrow> bool" where
  "temperature_ok PNone = True"
| "temperature_ok (PInt i) = (2700 \<le> i \<and> i \<le> 6500)"
| "temperature_ok (PFloat q) = (2700 \<le> q \<and> q \<le> 6500)"
| "temperature_ok _ = False"

definition state_ok :: "litra \<Rightarrow> bool" where
  "state_ok s \<longleftrightarrow>
     power_ok (Litra_power s) \<and> brightness_ok (Litra_brightness s) \<and>
     temperature_ok (Litra_temperature s)"

section \<open>Auxiliary facts\<close>

text \<open>A slice of at most two elements is never the three-element prefix.\<close>

lemma take2_ne_prefix: "take 2 (xs :: int list) \<noteq> [17, 255, 4]"
proof
  assume "take 2 xs = [17, 255, 4]"
  then have "length (take 2 xs) = 3" by simp
  then show False by simp
qed

lemma process_result_unfold:
  "process_result self result =
     (case drop 3 (tolist result) of
        [] \<Rightarrow> (self, Some IndexError)
      | input_code # input_data \<Rightarrow>
          (case INPUT_CODES input_code of
             None \<Rightarrow> (self, Some KeyError)
           | Some attr_name \<Rightarrow>
               (case INPUT_VALIDATION input_code of
                  None \<Rightarrow> (self, Some KeyError)
                | Some validate \<Rightarrow>
                    (case validate input_data of
                       Inl e \<Rightarrow> (self, Some e)
                     | Inr val \<Rightarrow> setattr self attr_name val))))"
  by (simp add: process_result_def Let_def take2_ne_prefix)

text \<open>The first three bytes of a report have no influence on what is decoded.\<close>

lemma process_result_ignores_prefix:
  "process_result self (a # b # c # rest) = process_result self (a' # b' # c' # rest)"
  by (simp add: process_result_unfold tolist_def)

lemma bit_length_abs_bound: "n < 2 ^ bit_length_abs n"
proof (induction n rule: bit_length_abs.induct)
  case (1 n)
  show ?case
  proof (cases "n \<le> 0")
    case True
    then have "n < 1" by simp
    with True show ?thesis by (simp add: bit_length_abs.simps [of n])
  next
    case False
    with 1 have "n div 2 < 2 ^ bit_length_abs (n div 2)" by simp
    then have "n < 2 * 2 ^ bit_length_abs (n div 2)" by linarith
    with False show ?thesis by (simp add: bit_length_abs.simps [of n])
  qed
qed

lemma value_fits:
  assumes "0 \<le> v"
  shows "v < 256 ^ value_len v"
proof -
  have "v < 2 ^ bit_length v"
    using assms bit_length_abs_bound [of v] by (simp add: bit_length_def)
  also have "(2::int) ^ bit_length v \<le> 2 ^ (8 * value_len v)"
    by (rule power_increasing) (simp_all add: value_len_def)
  also have "(2::int) ^ (8 * value_len v) = 256 ^ value_len v"
    by (simp add: power_mult)
  finally show ?thesis .
qed

lemma length_be_bytes: "length (be_bytes n v) = n"
  by (induction n arbitrary: v) simp_all

lemma to_bytes_value_len:
  "0 \<le> v \<Longrightarrow> to_bytes v (value_len v) = Inr (be_bytes (value_len v) v)"
  using value_fits [of v] by (simp add: to_bytes_def)

lemma value_len_0: "value_len 0 = 0"
  by (simp add: value_len_def bit_length_def bit_length_abs.simps [of 0])

lemma litra_command_unfold:
  assumes "LITRA_COMMANDS command = Some code" and "0 \<le> v"
  shows "litra_command command v =
           Inr ([17, 255, 4, code] @ be_bytes (value_len v) v @
                replicate (16 - value_len v) 0)"
proof -
  have "(20::nat) - (4 + value_len v) = 16 - value_len v" by simp
  then show ?thesis
    using assms
    by (simp add: litra_command_def to_bytes_value_len LITRA_COMMAND_BUFFER_PREFIX_def
        LITRA_COMMAND_BUFFER_LENGTH_def length_be_bytes Let_def)
qed

section \<open>The command encoder: claims C2, C4 and C5\<close>

text \<open>
  C2 (as stated): given value 0 the encoder emits at least one value byte. This fails:
  the byte count of 0 is \<open>ceil(0 / 8) = 0\<close>, so the value field is empty.
\<close>

theorem C2_zero_value_counterexample:
  "\<not> (\<exists>value_bytes. to_bytes 0 (value_len 0) = Inr value_bytes \<and> 1 \<le> length value_bytes)"
  by (simp add: value_len_0 to_bytes_def)

text \<open>
  C2 (amended): given value 0 the encoder emits no value byte; the buffer it returns
  is the prefix, the command code and 16 padding zeros, 20 bytes in all.
\<close>

theorem C2_zero_value_empty_field:
  assumes "LITRA_COMMANDS command = Some code"
  shows "value_len 0 = 0 \<and> to_bytes 0 (value_len 0) = Inr [] \<and>
         litra_command command 0 = Inr ([17, 255, 4, code] @ replicate 16 0)"
  using litra_command_unfold [OF assms, of 0]
  by (simp add: value_len_0 to_bytes_def)

theorem C2_zero_value_empty_field_witness:
  "LITRA_COMMANDS ''power'' = Some 28 \<and> value_len 0 = 0 \<and>
   to_bytes 0 (value_len 0) = Inr [] \<and>
   litra_command ''power'' 0 = Inr [17, 255, 4, 28, 0, 0, 0, 0, 0, 0, 0, 0, 0, 0, 0, 0, 0, 0, 0, 0]"
proof -
  have h: "LITRA_COMMANDS ''power'' = Some 28" by (simp add: LITRA_COMMANDS_def)
  have r: "replicate 16 (0::int) = [0, 0, 0, 0, 0, 0, 0, 0, 0, 0, 0, 0, 0, 0, 0, 0]"
    by (simp add: numeral_eq_Suc)
  show ?thesis using h C2_zero_value_empty_field [OF h] by (simp add: r value_len_0 to_bytes_def)
qed

text \<open>
  C4 (as stated): a value that needs more than 16 value bytes makes the encoder fail.
  This fails: \<open>2 ^ 128\<close> needs 17 bytes, and the encoder returns a buffer of 21 bytes.
\<close>

theorem C4_large_value_counterexample:
  "value_len (2 ^ 128) = 17 \<and>
   litra_command ''power'' (2 ^ 128) =
     Inr [17, 255, 4, 28, 1, 0, 0, 0, 0, 0, 0, 0, 0, 0, 0, 0, 0, 0, 0, 0, 0]"
  by code_simp

text \<open>
  C4 (amended): for a non-negative value that needs more than 16 value bytes the
  encoder does not fail. It returns the prefix, the command code and all the value
  bytes, without padding: a buffer of more than 20 bytes.
\<close>

theorem C4_large_value_unpadded:
  assumes "LITRA_COMMANDS command = Some code" and "0 \<le> v" and "16 < value_len v"
  shows "\<exists>buf. litra_command command v = Inr buf \<and>
           buf = [17, 255, 4, code] @ be_bytes (value_len v) v \<and>
           length buf = 4 + value_len v \<and> 20 < length buf"
  using litra_command_unfold [OF assms(1,2)] assms(3)
  by (simp add: length_be_bytes)

theorem C4_large_value_unpadded_witness:
  "LITRA_COMMANDS ''power'' = Some 28 \<and> (0::int) \<le> 2 ^ 128 \<and> 16 < value_len (2 ^ 128) \<and>
   (\<exists>buf. litra_command ''power'' (2 ^ 128) = Inr buf \<and>
      buf = [17, 255, 4, 28] @ be_bytes (value_len (2 ^ 128)) (2 ^ 128) \<and>
      length buf = 4 + value_len (2 ^ 128) \<and> 20 < length buf)"
proof -
  have h1: "LITRA_COMMANDS ''power'' = Some 28" by (simp add: LITRA_COMMANDS_def)
  have h2: "(0::int) \<le> 2 ^ 128" by simp
  have h3: "16 < value_len (2 ^ 128)" by code_simp
  from C4_large_value_unpadded [OF h1 h2 h3] h1 h2 h3 show ?thesis by blast
qed

text \<open>
  C5: for every recognised command name and every non-negative value whose minimal
  big-endian encoding has at most 16 bytes, the encoder returns a buffer of exactly
  20 bytes: the prefix 0x11, 0xFF, 0x04, then the command code, then the value bytes
  and the zero padding. In particular, power with value 1 gives
  0x11, 0xFF, 0x04, 0x1C, 0x01 and 15 zeros.
\<close>

theorem C5_encode_layout:
  assumes "LITRA_COMMANDS command = Some code" and "0 \<le> v" and "value_len v \<le> 16"
  shows "(\<exists>buf. litra_command command v = Inr buf \<and> length buf = 20 \<and>
            take 3 buf = [0x11, 0xFF, 0x04] \<and> buf ! 3 = code \<and>
            drop 4 buf = be_bytes (value_len v) v @ replicate (16 - value_len v) 0) \<and>
         litra_command ''power'' 1 = Inr ([0x11, 0xFF, 0x04, 0x1C, 0x01] @ replicate 15 0)"
proof -
  have "litra_command ''power'' 1 = Inr ([0x11, 0xFF, 0x04, 0x1C, 0x01] @ replicate 15 0)"
    by code_simp
  then show ?thesis
    using litra_command_unfold [OF assms(1,2)] assms(3)
    by (simp add: length_be_bytes)
qed

theorem C5_encode_layout_witness:
  "LITRA_COMMANDS ''brightness'' = Some 0x4C \<and> (0::int) \<le> 250 \<and> value_len 250 \<le> 16 \<and>
   (\<exists>buf. litra_command ''brightness'' 250 = Inr buf \<and> length buf = 20 \<and>
      take 3 buf = [0x11, 0xFF, 0x04] \<and> buf ! 3 = 0x4C \<and>
      drop 4 buf = be_bytes (value_len 250) 250 @ replicate (16 - value_len 250) 0)"
proof -
  have h1: "LITRA_COMMANDS ''brightness'' = Some 0x4C" by (simp add: LITRA_COMMANDS_def)
  have h2: "(0::int) \<le> 250" by simp
  have h3: "value_len 250 \<le> 16" by code_simp
  from C5_encode_layout [OF h1 h2 h3] h1 h2 h3 show ?thesis by blast
qed

section \<open>The property setters: claims C7, C8 and C9\<close>

text \<open>
  C7: assigning an integer outside [20, 250] to brightness raises nothing and leaves
  the object as it was; an integer inside the range is stored, the boundaries 20 and
  250 included.
\<close>

theorem C7_brightness_soft_rejection:
  "(v < 20 \<or> 250 < v \<longrightarrow> set_brightness self (PInt v) = (self, None)) \<and>
   (20 \<le> v \<and> v \<le> 250 \<longrightarrow>
      set_brightness self (PInt v) = (self\<lparr>Litra_brightness := PInt v\<rparr>, None)) \<and>
   set_brightness self (PInt 20) = (self\<lparr>Litra_brightness := PInt 20\<rparr>, None) \<and>
   set_brightness self (PInt 250) = (self\<lparr>Litra_brightness := PInt 250\<rparr>, None)"
  by (auto simp add: set_brightness_def)

theorem C7_brightness_soft_rejection_witness:
  "set_brightness init_litra (PInt 19) = (init_litra, None) \<and>
   set_brightness init_litra (PInt 251) = (init_litra, None) \<and>
   set_brightness init_litra (PInt 100) = (init_litra\<lparr>Litra_brightness := PInt 100\<rparr>, None)"
  using C7_brightness_soft_rejection [of 19 init_litra]
    C7_brightness_soft_rejection [of 251 init_litra]
    C7_brightness_soft_rejection [of 100 init_litra]
  by simp

text \<open>
  C8: assigning an integer outside [2700, 6500] to temperature raises the hard error
  (a \<open>ValueError\<close>, the spec's InvalidTemperature) and leaves the object as it was;
  2700 and 6500 are stored.
\<close>

theorem C8_temperature_hard_error:
  "(v < 2700 \<or> 6500 < v \<longrightarrow> set_temperature self (PInt v) = (self, Some ValueError)) \<and>
   set_temperature self (PInt 2700) = (self\<lparr>Litra_temperature := PInt 2700\<rparr>, None) \<and>
   set_temperature self (PInt 6500) = (self\<lparr>Litra_temperature := PInt 6500\<rparr>, None)"
  by (auto simp add: set_temperature_def)

theorem C8_temperature_hard_error_witness:
  "set_temperature init_litra (PInt 2699) = (init_litra, Some ValueError) \<and>
   set_temperature init_litra (PInt 6501) = (init_litra, Some ValueError)"
  using C8_temperature_hard_error [of 2699 init_litra]
    C8_temperature_hard_error [of 6501 init_litra]
  by simp

text \<open>
  C9: the temperature setter has no integer check, so a non-integer number inside
  [2700, 6500], such as 3000.5, is accepted and stored.
\<close>

theorem C9_temperature_accepts_non_integer:
  assumes "2700 \<le> q" and "q \<le> 6500"
  shows "set_temperature self (PFloat q) = (self\<lparr>Litra_temperature := PFloat q\<rparr>, None)"
  using assms by (simp add: set_temperature_def)

theorem C9_temperature_accepts_non_integer_witness:
  "(2700::rat) \<le> 6001 / 2 \<and> (6001 / 2 :: rat) \<le> 6500 \<and>
   set_temperature init_litra (PFloat (6001 / 2)) =
     (init_litra\<lparr>Litra_temperature := PFloat (6001 / 2)\<rparr>, None)"
proof -
  have h1: "(2700::rat) \<le> 6001 / 2" by simp
  have h2: "(6001 / 2 :: rat) \<le> 6500" by simp
  from C9_temperature_accepts_non_integer [OF h1 h2, of init_litra] h1 h2
  show ?thesis by blast
qed

section \<open>The report decoder: claims C1 and C6\<close>

text \<open>A report of fewer than four bytes: \<open>pop(0)\<close> finds the list empty.\<close>

lemma short_report_index_error:
  "length result < 4 \<Longrightarrow> process_result self result = (self, Some IndexError)"
  by (simp add: process_result_unfold tolist_def)

text \<open>
  C1: a report whose first three bytes are not 0x11, 0xFF, 0x04 must be refused
  without any change of the state. The guard of \<open>process_result\<close> never fires
  (\<open>take2_ne_prefix\<close>), so the report 0x11, 0xFF, 0x05, 16, 0x00, 0xFA is decoded and
  sets the brightness to 250.
\<close>

theorem C1_wrong_prefix_is_applied:
  "process_result init_litra [0x11, 0xFF, 0x05, 16, 0x00, 0xFA] =
     (init_litra\<lparr>Litra_brightness := PInt 250\<rparr>, None)"
  by code_simp



section \<open>The polling loop: claim C3\<close>







section \<open>The state invariant: claim C10\<close>

lemma set_power_ok: "state_ok s \<Longrightarrow> state_ok (fst (set_power s val))"
  by (cases val) (simp_all add: set_power_def state_ok_def)

lemma set_brightness_ok: "state_ok s \<Longrightarrow> state_ok (fst (set_brightness s val))"
  by (cases val) (simp_all add: set_brightness_def state_ok_def)

lemma set_temperature_ok: "state_ok s \<Longrightarrow> state_ok (fst (set_temperature s val))"
  by (cases val) (simp_all add: set_temperature_def state_ok_def)

lemma setattr_ok: "state_ok s \<Longrightarrow> state_ok (fst (setattr s attr_name val))"
  by (simp add: setattr_def set_power_ok set_brightness_ok set_temperature_ok)

lemma process_result_ok: "state_ok s \<Longrightarrow> state_ok (fst (process_result s result))"
  by (simp add: process_result_unfold setattr_ok split: list.split option.split sum.split)

lemma do_call_ok: "state_ok s \<Longrightarrow> state_ok (fst (do_call s c))"
  by (cases c)
    (simp_all add: set_power_ok set_brightness_ok set_temperature_ok process_result_ok)

lemma run_calls_ok: "state_ok s \<Longrightarrow> state_ok (run_calls s calls)"
  unfolding run_calls_def
  by (induction calls arbitrary: s) (simp_all add: do_call_ok)

lemma init_litra_ok: "state_ok init_litra"
  by (simp add: state_ok_def init_litra_def)

text \<open>
  C10: in every state reached from a fresh object by property assignments and
  processed reports, in any number and order, the power is \<open>None\<close> or a boolean, the
  brightness is \<open>None\<close> or an integer in [20, 250], and the temperature is \<open>None\<close> or a
  number in [2700, 6500].
\<close>

theorem C10_state_invariant: "state_ok (run_calls init_litra calls)"
  by (rule run_calls_ok [OF init_litra_ok])

theorem C10_state_invariant_witness:
  "state_ok (run_calls init_litra
     [SetBrightness (PInt 300), SetTemperature (PFloat (6001 / 2)), SetPower (PInt 1),
      ProcessResult [0x11, 0xFF, 0x04, 16, 0x00, 0xFA], SetTemperature (PBool True)]) \<and>
   run_calls init_litra
     [SetBrightness (PInt 300), SetTemperature (PFloat (6001 / 2)), SetPower (PInt 1),
      ProcessResult [0x11, 0xFF, 0x04, 16, 0x00, 0xFA], SetTemperature (PBool True)] =
     \<lparr>Litra_power = PNone, Litra_temperature = PFloat (6001 / 2),
      Litra_brightness = PInt 250\<rparr>"
proof -
  have "run_calls init_litra
     [SetBrightness (PInt 300), SetTemperature (PFloat (6001 / 2)), SetPower (PInt 1),
      ProcessResult [0x11, 0xFF, 0x04, 16, 0x00, 0xFA], SetTemperature (PBool True)] =
     \<lparr>Litra_power = PNone, Litra_temperature = PFloat (6001 / 2),
      Litra_brightness = PInt 250\<rparr>"
    by (simp add: run_calls_def init_litra_def set_brightness_def set_temperature_def
        set_power_def process_result_unfold tolist_def INPUT_CODES_def INPUT_VALIDATION_def
        validate_brightness_def from_bytes_def setattr_def)
  with C10_state_invariant [of "[SetBrightness (PInt 300), SetTemperature (PFloat (6001 / 2)),
      SetPower (PInt 1), ProcessResult [0x11, 0xFF, 0x04, 16, 0x00, 0xFA],
      SetTemperature (PBool True)]"]
  show ?thesis by simp
qed

end
